theory Spec2Isabelle
  imports Main "HOL-Library.Word"
begin

section \<open>The conversions of printf that cpg.c uses\<close>

text \<open>
  Strings are byte lists.  A decimal digit is looked up in the digit table; \<open>show_nat\<close>
  renders an unsigned value as \<open>%u\<close> and \<open>%lu\<close> do, \<open>show_int\<close> a signed one as
  \<open>%d\<close> does.
\<close>

definition digit_char :: "nat \<Rightarrow> char" where
  "digit_char d = ''0123456789'' ! d"

fun show_nat :: "nat \<Rightarrow> string" where
  "show_nat n =
     (if n < 10 then [digit_char n] else show_nat (n div 10) @ [digit_char (n mod 10)])"

declare show_nat.simps [simp del]

definition show_int :: "int \<Rightarrow> string" where
  "show_int i = (if i < 0 then CHR ''-'' # show_nat (nat (- i)) else show_nat (nat i))"

text \<open>
  \<open>snprintf(buf, size, ...)\<close> stores at most \<open>size - 1\<close> bytes of the formatted text and
  a terminating NUL; the model keeps the bytes before the NUL.
\<close>

definition snprintf :: "nat \<Rightarrow> string \<Rightarrow> string" where
  "snprintf n formatted = take (n - 1) formatted"

definition NUL :: char where
  "NUL = CHR 0x00"

text \<open>The three bytes of the UTF-8 horizontal ellipsis the log messages contain.\<close>

definition ellipsis :: string where
  "ellipsis = [CHR 0xE2, CHR 0x80, CHR 0xA6]"

section \<open>The host's and the substrate's calls, as a trace of effects\<close>

datatype elevel = DEBUG1 | LOG | FATAL

datatype signal = SIGTERM | SIGHUP

datatype handler = Cpg_sigterm | SignalHandlerForConfigReload

datatype guc_context =
  PGC_INTERNAL | PGC_POSTMASTER | PGC_SIGHUP | PGC_SU_BACKEND | PGC_BACKEND | PGC_SUSET
  | PGC_USERSET

datatype guc_flag = GUC_UNIT_S | GUC_UNIT_MS

text \<open>The ways \<open>cpg_dispatch\<close> can be asked to dispatch.\<close>

datatype cs_dispatch_flags_t =
  CS_DISPATCH_ONE | CS_DISPATCH_ALL | CS_DISPATCH_BLOCKING | CS_DISPATCH_ONE_NONBLOCKING

text \<open>The arguments of \<open>DefineCustomIntVariable\<close>; the three hooks are NULL in cpg.c.\<close>

record guc_int =
  name :: string
  short_desc :: string
  boot_value :: int
  min_value :: int
  max_value :: int
  gcontext :: guc_context
  flags :: guc_flag

text \<open>\<open>struct cpg_name\<close>: a length and a fixed array of bytes.\<close>

record cpg_name =
  length_field :: "32 word"
  value_field :: "char list"

text \<open>
  Every call that leaves the worker is recorded, in order.  \<open>Elog_unwritten\<close> is a log
  line whose \<open>%s\<close> argument points outside the bytes written to its buffer: the text
  before the argument is known, the rest is whatever the memory holds.
\<close>

datatype effect =
    Pqsignal signal handler
  | BackgroundWorkerUnblockSignals
  | DefineCustomIntVariable guc_int
  | MarkGUCPrefixReserved string
  | Elog elevel string
  | Elog_unwritten elevel string
  | Set_ps_display string
  | Cpg_model_initialize
  | Cpg_join cpg_name
  | Cpg_local_get
  | Cpg_fd_get
  | CHECK_FOR_INTERRUPTS
  | Cpg_dispatch cs_dispatch_flags_t
  | HandleMainLoopInterrupts
  | WaitLatchOrSocket "32 word" int
  | ResetLatch

section \<open>The worker's global variables\<close>

text \<open>
  \<open>interval\<close> is a C int, \<open>members\<close> and \<open>MyNodeID\<close> are uint32_t, \<open>MyProcPid\<close> is the
  host's int holding the worker's pid (read as two's complement with \<open>sint\<close>).
  \<open>cpg_fd\<close>, the int32_t local of \<open>cpg_main\<close> that the event loop reads, is kept with
  them, and so is the trace.
\<close>

record state =
  interval :: "32 word"
  in_recovery :: bool
  members :: "32 word"
  MyNodeID :: "32 word"
  MyProcPid :: "32 word"
  cpg_fd :: "32 word"
  trace :: "effect list"

definition emit :: "effect \<Rightarrow> state \<Rightarrow> state" where
  "emit e s = s\<lparr>trace := trace s @ [e]\<rparr>"

definition elog :: "elevel \<Rightarrow> string \<Rightarrow> state \<Rightarrow> state" where
  "elog lvl msg s = emit (Elog lvl msg) s"

text \<open>
  How a call ends: it returns, or the process ends inside it.  \<open>elog(FATAL, ...)\<close> and
  \<open>exit\<close> do not return.
\<close>

datatype halt = Exit_status int | Fatal_error | Postmaster_death

datatype 'a flow = Return 'a | Halt halt state

definition elog_fatal :: "string \<Rightarrow> state \<Rightarrow> 'a flow" where
  "elog_fatal msg s = Halt Fatal_error (elog FATAL msg s)"

section \<open>update_ps_display\<close>

definition update_ps_display :: "state \<Rightarrow> state" where
  "update_ps_display s =
     (let ps_display =
        (if in_recovery s
         then snprintf 128 (''['' @ show_nat (unat (members s)) @ ''] Hello!'')
         else snprintf 128 (''['' @ show_nat (unat (members s)) @ ''] I'm the primary!''))
      in emit (Set_ps_display ps_display) s)"

section \<open>cpg_sigterm\<close>

definition cpg_sigterm :: "state \<Rightarrow> state flow" where
  "cpg_sigterm s = Halt (Exit_status 0) (elog LOG (''[cpg] '' @ ellipsis @ ''and leaving'') s)"

section \<open>cs_config_cb\<close>

text \<open>\<open>struct cpg_address\<close>: three uint32_t fields.\<close>

record cpg_address =
  nodeid :: "32 word"
  pid :: "32 word"
  reason :: "32 word"

text \<open>
  The three arrays the callback receives; each \<open>..._entries\<close> argument is the length of
  its list.  The handle and the group name are not read by the callback.
\<close>

record confchg =
  member_list :: "cpg_address list"
  left_list :: "cpg_address list"
  joined_list :: "cpg_address list"

text \<open>
  The host's \<open>StringInfoData\<close>: \<open>data\<close> holds the bytes written so far, that is \<open>len\<close>
  bytes of text and the terminating NUL.  The buffer grows as needed, and allocation is
  taken to succeed.  A C string read at \<open>data + k\<close> is defined when \<open>k\<close> is inside the
  written bytes.
\<close>

record StringInfoData =
  data :: "char list"
  len :: nat

definition initStringInfo :: StringInfoData where
  "initStringInfo = \<lparr>data = [NUL], len = 0\<rparr>"

definition appendStringInfo :: "StringInfoData \<Rightarrow> string \<Rightarrow> StringInfoData" where
  "appendStringInfo str text =
     \<lparr>data = take (len str) (data str) @ text @ [NUL], len = len str + length text\<rparr>"

definition cstring_at :: "char list \<Rightarrow> nat \<Rightarrow> string option" where
  "cstring_at buf k =
     (if k < length buf then Some (takeWhile (\<lambda>c. c \<noteq> NUL) (drop k buf)) else None)"

text \<open>
  Lines 116-118: \<open>for (i = 0; i < member_list_entries; i++) appendStringInfo(...)\<close>.
  The index is an unsigned int, the bound a size_t: the comparison is made on the
  unsigned values and \<open>i++\<close> wraps at \<open>2 ^ 32\<close>, so the loop has no exit when the list has
  \<open>2 ^ 32\<close> entries or more.  Both fields are uint32_t arguments of \<open>%d\<close>.
\<close>

definition member_text :: "cpg_address \<Rightarrow> string" where
  "member_text a = '', '' @ show_int (sint (nodeid a)) @ ''/'' @ show_int (sint (pid a))"

partial_function (option) sum_up_members ::
  "cpg_address list \<Rightarrow> 32 word \<Rightarrow> StringInfoData \<Rightarrow> StringInfoData option" where
  "sum_up_members ms i msg =
     (if unat i < length ms
      then sum_up_members ms (i + 1) (appendStringInfo msg (member_text (ms ! unat i)))
      else Some msg)"

declare sum_up_members.simps [code]

text \<open>
  Line 120: the text of the log line before its \<open>%s\<close>; the two counts are size_t
  arguments of \<open>%lu\<close>.
\<close>

definition confchg_head :: "confchg \<Rightarrow> string" where
  "confchg_head cb =
     ''[cpg] '' @ show_nat (length (joined_list cb)) @ '' join, '' @
     show_nat (length (left_list cb)) @ '' left, procs in group now: ''"

text \<open>
  Lines 126-128, "Did I left the group ?": \<open>left_list[0]\<close> is read only when
  \<open>left_list_entries\<close> is not zero, and \<open>(pid_t)left_list[0].pid == MyProcPid\<close> compares
  two signed ints.
\<close>

definition i_left :: "confchg \<Rightarrow> state \<Rightarrow> bool" where
  "i_left cb s =
     (case left_list cb of
        [] \<Rightarrow> False
      | a # _ \<Rightarrow> sint (pid a) = sint (MyProcPid s) \<and> nodeid a = MyNodeID s)"

text \<open>
  The callback.  \<open>None\<close>: the loop over the members does not end.  \<open>members\<close> takes the
  size_t count converted to uint32_t.  The log line reads the buffer from its third
  byte on.
\<close>

definition cs_config_cb :: "confchg \<Rightarrow> state \<Rightarrow> state flow option" where
  "cs_config_cb cb s =
     (let s1 = update_ps_display (s\<lparr>members := of_nat (length (member_list cb))\<rparr>)
      in case sum_up_members (member_list cb) 0 initStringInfo of
           None \<Rightarrow> None
         | Some msg \<Rightarrow>
             let s2 = (case cstring_at (data msg) 2 of
                         Some text \<Rightarrow> elog LOG (confchg_head cb @ text) s1
                       | None \<Rightarrow> emit (Elog_unwritten LOG (confchg_head cb)) s1)
             in Some (if i_left cb s2
                      then elog_fatal ''[cpg] I left the closed process group!'' s2
                      else Return s2))"

section \<open>cpg_main: what it takes from the headers and the host\<close>

text \<open>
  Modelled from the spec: the substrate's result codes OK, TRY_AGAIN and INVALID_PARAM
  (section 6).  Their header is not in the repository; \<open>cs_error_t\<close> is a C enum, here
  an int, and the numbers are those of corosync's \<open>corotypes.h\<close>.
\<close>

definition CS_OK :: int where
  "CS_OK = 1"

definition CS_ERR_TRY_AGAIN :: int where
  "CS_ERR_TRY_AGAIN = 6"

definition CS_ERR_INVALID_PARAM :: int where
  "CS_ERR_INVALID_PARAM = 7"

text \<open>
  Modelled from the spec: the group name has "an explicit length at most a
  substrate-defined maximum" (section 3); the maximum, \<open>CPG_MAX_NAME_LENGTH\<close> of
  corosync's \<open>cpg.h\<close>, is 128 there.
\<close>

definition CPG_MAX_NAME_LENGTH :: nat where
  "CPG_MAX_NAME_LENGTH = 128"

text \<open>\<open>INT_MAX\<close> of \<open>limits.h\<close> for a 32-bit int.\<close>

definition INT_MAX :: int where
  "INT_MAX = 2147483647"

definition CPG_GROUP_NAME :: string where
  "CPG_GROUP_NAME = ''pgsql_group''"

definition strlen :: "string \<Rightarrow> nat" where
  "strlen str = length (takeWhile (\<lambda>c. c \<noteq> NUL) str)"

text \<open>\<open>strncpy(dest, src, n)\<close>: the bytes of \<open>src\<close> before its NUL, at most \<open>n\<close>, then NULs.\<close>

definition strncpy :: "string \<Rightarrow> nat \<Rightarrow> char list" where
  "strncpy src n =
     take n (takeWhile (\<lambda>c. c \<noteq> NUL) src) @ replicate (n - strlen src) NUL"

text \<open>Lines 175-187: the one option the worker defines.  C's \<open>/\<close> on two positive ints.\<close>

definition interval_guc :: guc_int where
  "interval_guc =
     \<lparr>name = ''cpg.interval'',
      short_desc = ''Defines the maximal interval in seconds between wakeups'',
      boot_value = 10,
      min_value = 1,
      max_value = INT_MAX div 1000,
      gcontext = PGC_SIGHUP,
      flags = GUC_UNIT_S\<rparr>"

text \<open>
  Modelled from the spec: the host's GUC facility is not in the repository.  It "rejects"
  a value out of range, so that "the agent never observes invalid values" (section 7,
  P6): a setting inside \<open>[min_value, max_value]\<close> is stored in the variable, any other
  leaves the variable as it is.
\<close>

definition guc_set :: "guc_int \<Rightarrow> int \<Rightarrow> 32 word \<Rightarrow> 32 word" where
  "guc_set g v cur = (if min_value g \<le> v \<and> v \<le> max_value g then word_of_int v else cur)"

text \<open>
  What the startup sequence is given: the role at startup, the setting of
  \<open>cpg.interval\<close> in the configuration (if any), and what the four substrate calls
  return.
\<close>

record startup_env =
  recovery_at_start :: bool
  configured_interval :: "int option"
  init_rc :: int
  join_rc :: int
  local_get_rc :: int
  local_nodeid :: "32 word"
  fd_get_rc :: int
  fd_value :: "32 word"

text \<open>
  What one iteration of the event loop is given: the config change \<open>cpg_dispatch\<close>
  delivers to the callback (if any) and the code it returns, the results of the two
  calls of \<open>RecoveryInProgress\<close>, the setting a pending reload reads (if any), and how the
  wait ends.
\<close>

datatype wait_end = Woken | Sigterm_arrives | Postmaster_dies

record iteration =
  delivered :: "confchg option"
  dispatch_rc :: int
  recovery_first :: bool
  recovery_second :: bool
  reload :: "int option"
  wake :: wait_end

section \<open>cpg_main: the startup sequence (lines 163-247)\<close>

definition then_do :: "state flow \<Rightarrow> (state \<Rightarrow> state flow) \<Rightarrow> state flow" where
  "then_do r f = (case r of Return s \<Rightarrow> f s | Halt h s \<Rightarrow> Halt h s)"

text \<open>
  Lines 175-199: the option is defined and the prefix \<open>cpg\<close> is reserved (the call of
  PostgreSQL 15 and later).  The host sets the variable to its default, or to the setting
  of the configuration.
\<close>

definition define_gucs :: "startup_env \<Rightarrow> state \<Rightarrow> state" where
  "define_gucs env s =
     (let s1 = emit (DefineCustomIntVariable interval_guc) s;
          boot = word_of_int (boot_value interval_guc)
      in emit (MarkGUCPrefixReserved ''cpg'')
           (s1\<lparr>interval := (case configured_interval env of
                              None \<Rightarrow> boot
                            | Some v \<Rightarrow> guc_set interval_guc v boot)\<rparr>))"

definition cpg_initialize :: "startup_env \<Rightarrow> state \<Rightarrow> state flow" where
  "cpg_initialize env s =
     (let s1 = emit Cpg_model_initialize s
      in if init_rc env \<noteq> CS_OK
         then elog_fatal (''[cpg] could not init the cpg handle: '' @ show_int (init_rc env)) s1
         else Return s1)"

definition cpg_group :: cpg_name where
  "cpg_group =
     \<lparr>length_field = of_nat (strlen CPG_GROUP_NAME),
      value_field = strncpy CPG_GROUP_NAME CPG_MAX_NAME_LENGTH\<rparr>"

definition join_group :: "startup_env \<Rightarrow> state \<Rightarrow> state flow" where
  "join_group env s =
     (let s1 = emit (Cpg_join cpg_group) s
      in if join_rc env = CS_OK
         then Return (elog LOG (''[cpg] joined group '' @ [CHR 0x27] @ CPG_GROUP_NAME) s1)
         else if join_rc env = CS_ERR_INVALID_PARAM
         then elog_fatal ''[cpg] the handle is already joined to a group'' s1
         else elog_fatal
                (''[cpg] could not join the close process group: '' @ show_int (join_rc env)) s1)"

definition local_get :: "startup_env \<Rightarrow> state \<Rightarrow> state flow" where
  "local_get env s =
     (let s1 = emit Cpg_local_get s
      in if local_get_rc env \<noteq> CS_OK
         then elog_fatal (''[cpg] failed to get local nodeid: '' @ show_int (local_get_rc env)) s1
         else Return (s1\<lparr>MyNodeID := local_nodeid env\<rparr>))"

definition fd_get :: "startup_env \<Rightarrow> state \<Rightarrow> state flow" where
  "fd_get env s =
     (let s1 = emit Cpg_fd_get s
      in if fd_get_rc env \<noteq> CS_OK
         then elog_fatal
                (''[cpg] failed to get the CPG file descriptor: '' @ show_int (fd_get_rc env)) s1
         else Return (s1\<lparr>cpg_fd := fd_value env\<rparr>))"

definition startup :: "startup_env \<Rightarrow> state \<Rightarrow> state flow" where
  "startup env s =
     (let s1 = emit (Pqsignal SIGTERM Cpg_sigterm) s;
          s2 = emit (Pqsignal SIGHUP SignalHandlerForConfigReload) s1;
          s3 = emit BackgroundWorkerUnblockSignals s2;
          s4 = define_gucs env s3;
          s5 = elog LOG (''[cpg] Starting'' @ ellipsis) s4;
          s6 = update_ps_display (s5\<lparr>in_recovery := recovery_at_start env\<rparr>)
      in then_do (then_do (then_do (cpg_initialize env s6) (join_group env)) (local_get env))
           (fd_get env))"

section \<open>cpg_main: the event loop (lines 250-286) and what follows it\<close>

text \<open>Lines 257-263: what the loop does with the code \<open>cpg_dispatch\<close> returned.\<close>

definition classify :: "iteration \<Rightarrow> state \<Rightarrow> state flow" where
  "classify it s =
     (if dispatch_rc it = CS_OK
      then Return (elog DEBUG1 ''[cpg] dispatched one event'' s)
      else if dispatch_rc it \<noteq> CS_ERR_TRY_AGAIN
      then elog_fatal (''[cpg] dispatching callback failed: '' @ show_int (dispatch_rc it)) s
      else Return s)"

text \<open>
  Lines 256-263.  The callback, when a config change is delivered, runs inside
  \<open>cpg_dispatch\<close>, before it returns.
\<close>

definition dispatch_one :: "iteration \<Rightarrow> state \<Rightarrow> state flow option" where
  "dispatch_one it s =
     (let s1 = emit (Cpg_dispatch CS_DISPATCH_ONE_NONBLOCKING) s
      in case delivered it of
           None \<Rightarrow> Some (classify it s1)
         | Some cb \<Rightarrow>
             (case cs_config_cb cb s1 of
                None \<Rightarrow> None
              | Some r \<Rightarrow> Some (then_do r (classify it))))"

text \<open>Lines 265-272.\<close>

definition check_role :: "iteration \<Rightarrow> state \<Rightarrow> state" where
  "check_role it s =
     (if recovery_first it \<noteq> in_recovery s
      then update_ps_display
             ((elog LOG ''[cpg] I've been promoted!'' s)\<lparr>in_recovery := recovery_second it\<rparr>)
      else elog LOG ''[cpg] Hi!'' s)"

text \<open>Line 276: the only pending interrupt the worker's handlers can leave is a reload.\<close>

definition handle_interrupts :: "iteration \<Rightarrow> state \<Rightarrow> state" where
  "handle_interrupts it s =
     (let s1 = emit HandleMainLoopInterrupts s
      in case reload it of
           None \<Rightarrow> s1
         | Some v \<Rightarrow> s1\<lparr>interval := guc_set interval_guc v (interval s1)\<rparr>)"

text \<open>
  Lines 279-285.  \<open>interval*1000\<close> is an int product, passed as the long timeout.  A
  signal is taken to arrive during the wait, the worker's only blocking call.
\<close>

definition wait_latch :: "iteration \<Rightarrow> state \<Rightarrow> state flow" where
  "wait_latch it s =
     (let s1 = emit (WaitLatchOrSocket (cpg_fd s) (sint (interval s * 1000))) s
      in case wake it of
           Woken \<Rightarrow> Return (emit ResetLatch s1)
         | Sigterm_arrives \<Rightarrow> cpg_sigterm s1
         | Postmaster_dies \<Rightarrow> Halt Postmaster_death s1)"

text \<open>
  One iteration, lines 252-285.  \<open>CHECK_FOR_INTERRUPTS\<close> finds nothing to do: the worker's
  signal handlers raise none of the interrupts it serves.
\<close>

definition loop_body :: "iteration \<Rightarrow> state \<Rightarrow> state flow option" where
  "loop_body it s =
     (case dispatch_one it (emit CHECK_FOR_INTERRUPTS s) of
        None \<Rightarrow> None
      | Some r \<Rightarrow>
          Some (then_do r (\<lambda>s1. wait_latch it (handle_interrupts it (check_role it s1)))))"

text \<open>
  \<open>for (;;)\<close> over the iterations given.  The loop has three ends: the process halts
  inside an iteration, the iterations given are used up with the worker still in the
  loop, or control leaves the loop for the statement after it.
\<close>

datatype loop_end = Loop_halted halt state | Loop_waiting state | Loop_broke state

fun event_loop :: "iteration list \<Rightarrow> state \<Rightarrow> loop_end option" where
  "event_loop [] s = Some (Loop_waiting s)"
| "event_loop (it # its) s =
     (case loop_body it s of
        None \<Rightarrow> None
      | Some (Halt h s1) \<Rightarrow> Some (Loop_halted h s1)
      | Some (Return s1) \<Rightarrow> event_loop its s1)"

text \<open>Lines 288-290.\<close>

definition after_loop :: "state \<Rightarrow> state flow" where
  "after_loop s = Halt (Exit_status 1) (elog LOG ''[cpg] oops, the event loop broke'' s)"

datatype run = Ended halt state | Still_running state

definition cpg_main :: "startup_env \<Rightarrow> iteration list \<Rightarrow> state \<Rightarrow> run option" where
  "cpg_main env its s =
     (case startup env s of
        Halt h s1 \<Rightarrow> Some (Ended h s1)
      | Return s1 \<Rightarrow>
          (case event_loop its s1 of
             None \<Rightarrow> None
           | Some (Loop_halted h s2) \<Rightarrow> Some (Ended h s2)
           | Some (Loop_waiting s2) \<Rightarrow> Some (Still_running s2)
           | Some (Loop_broke s2) \<Rightarrow>
               (case after_loop s2 of
                  Halt h s3 \<Rightarrow> Some (Ended h s3)
                | Return s3 \<Rightarrow> Some (Still_running s3))))"

section \<open>Notions used in the statements and the proofs\<close>

text \<open>The state a call ends in, and the effects a call added to the trace.\<close>

definition final :: "state flow \<Rightarrow> state" where
  "final r = (case r of Return s \<Rightarrow> s | Halt h s \<Rightarrow> s)"

definition new_effects :: "state \<Rightarrow> state \<Rightarrow> effect list" where
  "new_effects s s' = drop (length (trace s)) (trace s')"

text \<open>
  An address is the worker's own when node id and pid are the worker's (section 3 of the
  specification: two addresses are equal iff both fields match).
\<close>

definition own_address :: "state \<Rightarrow> cpg_address \<Rightarrow> bool" where
  "own_address s a = (nodeid a = MyNodeID s \<and> pid a = MyProcPid s)"

text \<open>The list of a view's \<open>nodeid/pid\<close> pairs, separated by a comma and a space.\<close>

definition pair_text :: "cpg_address \<Rightarrow> string" where
  "pair_text a = show_int (sint (nodeid a)) @ ''/'' @ show_int (sint (pid a))"

fun pairs_text :: "cpg_address list \<Rightarrow> string" where
  "pairs_text [] = []"
| "pairs_text [a] = pair_text a"
| "pairs_text (a # b # bs) = pair_text a @ '', '' @ pairs_text (b # bs)"

text \<open>The buffer after the texts of the members \<open>ms\<close> were appended to \<open>msg\<close> in order.\<close>

definition append_members :: "StringInfoData \<Rightarrow> cpg_address list \<Rightarrow> StringInfoData" where
  "append_members msg ms = foldl (\<lambda>m a. appendStringInfo m (member_text a)) msg ms"

text \<open>The status string as the specification words it (section 4.5).\<close>

definition status_text :: "32 word \<Rightarrow> bool \<Rightarrow> string" where
  "status_text m r =
     ''['' @ show_nat (unat m) @ (if r then ''] Hello!'' else ''] I'm the primary!'')"

text \<open>
  The callback in closed form, for a view the loop over the members gets through: the
  state after its log line, and how it ends.
\<close>

definition logged :: "confchg \<Rightarrow> state \<Rightarrow> state" where
  "logged cb s =
     (let s1 = update_ps_display (s\<lparr>members := of_nat (length (member_list cb))\<rparr>)
      in if member_list cb = []
         then emit (Elog_unwritten LOG (confchg_head cb)) s1
         else elog LOG (confchg_head cb @ pairs_text (member_list cb)) s1)"

definition callback_end :: "confchg \<Rightarrow> state \<Rightarrow> state flow" where
  "callback_end cb s =
     (if i_left cb s
      then elog_fatal ''[cpg] I left the closed process group!'' (logged cb s)
      else Return (logged cb s))"

text \<open>The config changes a list of iterations delivers, in order.\<close>

definition views :: "iteration list \<Rightarrow> confchg list" where
  "views its = List.map_filter delivered its"

text \<open>Whether a text has a decimal digit in it.\<close>

definition has_digit :: "string \<Rightarrow> bool" where
  "has_digit str = list_ex (\<lambda>c. c \<in> set ''0123456789'') str"

text \<open>How a call ended the process, if it did.\<close>

definition ending :: "state flow \<Rightarrow> halt option" where
  "ending r = (case r of Return s \<Rightarrow> None | Halt h s \<Rightarrow> Some h)"

text \<open>What the dispatch call comes back with when the callback, if one is delivered, returns.\<close>

definition dispatch_returns :: "iteration \<Rightarrow> state \<Rightarrow> state \<Rightarrow> bool" where
  "dispatch_returns it s s2 =
     (case delivered it of
        None \<Rightarrow> s2 = emit (Cpg_dispatch CS_DISPATCH_ONE_NONBLOCKING) s
      | Some cb \<Rightarrow>
          cs_config_cb cb (emit (Cpg_dispatch CS_DISPATCH_ONE_NONBLOCKING) s) = Some (Return s2))"

text \<open>The options a list of effects defines, in order.\<close>

fun defined_gucs :: "effect list \<Rightarrow> guc_int list" where
  "defined_gucs [] = []"
| "defined_gucs (DefineCustomIntVariable g # es) = g # defined_gucs es"
| "defined_gucs (e # es) = defined_gucs es"

text \<open>The state in which the startup sequence reaches the substrate.\<close>

definition prepared :: "startup_env \<Rightarrow> state \<Rightarrow> state" where
  "prepared env s =
     (let s1 = emit (Pqsignal SIGTERM Cpg_sigterm) s;
          s2 = emit (Pqsignal SIGHUP SignalHandlerForConfigReload) s1;
          s3 = emit BackgroundWorkerUnblockSignals s2;
          s4 = define_gucs env s3;
          s5 = elog LOG (''[cpg] Starting'' @ ellipsis) s4
      in update_ps_display (s5\<lparr>in_recovery := recovery_at_start env\<rparr>))"

text \<open>A stretch of a run in which \<open>cpg_dispatch\<close> is not called.\<close>

definition silent :: "state \<Rightarrow> state \<Rightarrow> bool" where
  "silent s s' = (\<exists>es. trace s' = trace s @ es \<and> (\<forall>f. Cpg_dispatch f \<notin> set es))"

text \<open>The calls of \<open>cpg_dispatch\<close> among a list of effects.\<close>

fun is_dispatch :: "effect \<Rightarrow> bool" where
  "is_dispatch (Cpg_dispatch f) = True"
| "is_dispatch e = False"

section \<open>Example inputs\<close>

text \<open>The worker on node 7 with pid 123, a peer on node 8, and views of the two.\<close>

definition node7 :: cpg_address where
  "node7 = \<lparr>nodeid = 7, pid = 123, reason = 1\<rparr>"

definition node8 :: cpg_address where
  "node8 = \<lparr>nodeid = 8, pid = 456, reason = 1\<rparr>"

definition worker7 :: state where
  "worker7 = \<lparr>interval = 10, in_recovery = True, members = 0, MyNodeID = 7, MyProcPid = 123,
          cpg_fd = 5, trace = []\<rparr>"

definition solo_join :: confchg where
  "solo_join = \<lparr>member_list = [node7], left_list = [], joined_list = [node7]\<rparr>"

definition empty_view :: confchg where
  "empty_view = \<lparr>member_list = [], left_list = [], joined_list = []\<rparr>"

definition evicted :: confchg where
  "evicted = \<lparr>member_list = [node8], left_list = [node7], joined_list = []\<rparr>"

definition two_left :: confchg where
  "two_left = \<lparr>member_list = [node8], left_list = [node8, node7], joined_list = []\<rparr>"

definition idle_iteration :: iteration where
  "idle_iteration = \<lparr>delivered = None, dispatch_rc = CS_ERR_TRY_AGAIN, recovery_first = True,
     recovery_second = True, reload = None, wake = Woken\<rparr>"

definition demotion :: iteration where
  "demotion = idle_iteration\<lparr>recovery_first := True, recovery_second := True\<rparr>"

definition primary7 :: state where
  "primary7 = worker7\<lparr>in_recovery := False, members := 2\<rparr>"

text \<open>
  The worker's variables as the process starts, a startup in which every substrate call
  succeeds, and one in which the join is refused.
\<close>

definition boot7 :: state where
  "boot7 = \<lparr>interval = 0, in_recovery = False, members = 0, MyNodeID = 0, MyProcPid = 123,
     cpg_fd = 0, trace = []\<rparr>"

definition all_ok :: startup_env where
  "all_ok = \<lparr>recovery_at_start = True, configured_interval = None, init_rc = CS_OK,
     join_rc = CS_OK, local_get_rc = CS_OK, local_nodeid = 7, fd_get_rc = CS_OK, fd_value = 5\<rparr>"

definition already_joined :: startup_env where
  "already_joined = all_ok\<lparr>join_rc := CS_ERR_INVALID_PARAM\<rparr>"

definition slowest :: state where
  "slowest = worker7\<lparr>interval := 2147483\<rparr>"

definition failed_dispatch :: iteration where
  "failed_dispatch = idle_iteration\<lparr>dispatch_rc := 2\<rparr>"

definition join_delivered :: iteration where
  "join_delivered = idle_iteration\<lparr>delivered := Some solo_join, dispatch_rc := CS_OK\<rparr>"

definition dispatching :: state where
  "dispatching =
     emit (Cpg_dispatch CS_DISPATCH_ONE_NONBLOCKING) (emit CHECK_FOR_INTERRUPTS worker7)"

section \<open>Facts about the conversions\<close>

lemma digit_char_in_table: "d < 10 \<Longrightarrow> digit_char d \<in> set ''0123456789''"
  unfolding digit_char_def by (rule nth_mem) simp

lemma show_nat_length: "n < 10 ^ k \<Longrightarrow> 0 < k \<Longrightarrow> length (show_nat n) \<le> k"
proof (induction k arbitrary: n)
  case 0
  then show ?case by simp
next
  case (Suc k)
  show ?case
  proof (cases "n < 10")
    case True
    then show ?thesis by (simp add: show_nat.simps [of n])
  next
    case False
    with Suc.prems have k: "0 < k" by (cases k) auto
    from Suc.prems have "n div 10 < 10 ^ k"
      by (simp add: less_mult_imp_div_less mult.commute)
    with Suc.IH k have "length (show_nat (n div 10)) \<le> k" by blast
    with False show ?thesis by (simp add: show_nat.simps [of n])
  qed
qed

lemma show_u32_length: "length (show_nat (unat (w :: 32 word))) \<le> 10"
proof -
  have "unat w < 2 ^ 32" using unsigned_less [of w] by simp
  then have "unat w < 10 ^ 10" by simp
  then show ?thesis by (rule show_nat_length) simp
qed

lemma show_nat_chars: "set (show_nat n) \<subseteq> set ''0123456789''"
proof (induction n rule: show_nat.induct)
  case (1 n)
  show ?case
  proof (cases "n < 10")
    case True
    then show ?thesis
      using digit_char_in_table [of n] by (simp add: show_nat.simps [of n])
  next
    case False
    have "digit_char (n mod 10) \<in> set ''0123456789''"
      by (rule digit_char_in_table) simp
    with False 1 show ?thesis by (simp add: show_nat.simps [of n])
  qed
qed

lemma NUL_notin_show_nat: "NUL \<notin> set (show_nat n)"
proof -
  have "NUL \<notin> set ''0123456789''" by (simp add: NUL_def)
  with show_nat_chars [of n] show ?thesis by blast
qed

lemma NUL_notin_show_int: "NUL \<notin> set (show_int i)"
proof (cases "i < 0")
  case True
  have "NUL \<noteq> CHR ''-''" by (simp add: NUL_def)
  with True NUL_notin_show_nat [of "nat (- i)"] show ?thesis by (simp add: show_int_def)
next
  case False
  with NUL_notin_show_nat [of "nat i"] show ?thesis by (simp add: show_int_def)
qed

lemma NUL_notin_member_text: "NUL \<notin> set (member_text a)"
proof -
  have "NUL \<notin> set '', ''" "NUL \<notin> set ''/''" by (simp_all add: NUL_def)
  then show ?thesis
    using NUL_notin_show_int [of "sint (nodeid a)"] NUL_notin_show_int [of "sint (pid a)"]
    by (simp add: member_text_def)
qed

lemma member_text_pair: "member_text a = '', '' @ pair_text a"
  by (simp add: member_text_def pair_text_def)

lemma concat_member_text:
  "concat (map member_text (a # as)) = '', '' @ pairs_text (a # as)"
  by (induction as arbitrary: a) (simp_all add: member_text_pair)

lemma NUL_notin_pairs_text: "NUL \<notin> set (pairs_text ms)"
proof (cases ms)
  case Nil
  then show ?thesis by simp
next
  case (Cons a as)
  have "NUL \<notin> set (concat (map member_text (a # as)))"
    using NUL_notin_member_text by auto
  then show ?thesis unfolding concat_member_text Cons by simp
qed

text \<open>The equations that evaluate the conversions on numerals.\<close>

lemmas show_eval = show_nat.simps [of "numeral n" for n] show_nat.simps [of 0]
  show_nat.simps [of 1] show_nat.simps [of "Suc 0"] digit_char_def show_int_def

section \<open>The loop over the members\<close>

lemma sum_up_members_total:
  "length ms < 2 ^ 32 \<Longrightarrow> unat i \<le> length ms \<Longrightarrow>
   sum_up_members ms i msg = Some (append_members msg (drop (unat i) ms))"
proof (induction "length ms - unat i" arbitrary: i msg)
  case 0
  then show ?case by (subst sum_up_members.simps) (simp add: append_members_def)
next
  case (Suc k)
  then have lt: "unat i < length ms" by simp
  with Suc.prems have "unat i + 1 < 2 ^ 32" by simp
  then have u: "unat (i + 1) = unat i + 1"
    by (simp add: unat_word_ariths)
  have k: "k = length ms - unat (i + 1)" using Suc.hyps(2) u by simp
  have "sum_up_members ms (i + 1) (appendStringInfo msg (member_text (ms ! unat i)))
      = Some (append_members (appendStringInfo msg (member_text (ms ! unat i)))
                (drop (unat (i + 1)) ms))"
    using Suc.hyps(1) [OF k Suc.prems(1)] lt u by simp
  moreover have "drop (unat i) ms = ms ! unat i # drop (unat (i + 1)) ms"
    using lt u by (simp add: Cons_nth_drop_Suc)
  ultimately show ?case
    using lt by (subst sum_up_members.simps) (simp add: append_members_def)
qed

lemma sum_up_members_ends: "sum_up_members ms i msg = Some r \<Longrightarrow> length ms < 2 ^ 32"
proof (rule sum_up_members.raw_induct [where P = "\<lambda>ms i msg r. length ms < 2 ^ 32"], goal_cases)
  case (1 f ms i msg r)
  show ?case
  proof (cases "unat i < length ms")
    case True
    with 1(3) have "f ms (i + 1) (appendStringInfo msg (member_text (ms ! unat i))) = Some r"
      by simp
    then show ?thesis by (rule 1(2))
  next
    case False
    moreover have "unat i < 2 ^ 32" using unsigned_less [of i] by simp
    ultimately show ?thesis by simp
  qed
qed

lemma append_members_data:
  "data msg = t @ [NUL] \<Longrightarrow> len msg = length t \<Longrightarrow>
   data (append_members msg ms) = t @ concat (map member_text ms) @ [NUL]
   \<and> len (append_members msg ms) = length t + length (concat (map member_text ms))"
proof (induction ms arbitrary: msg t)
  case Nil
  then show ?case by (simp add: append_members_def)
next
  case (Cons a ms)
  let ?m = "appendStringInfo msg (member_text a)"
  have "data ?m = (t @ member_text a) @ [NUL]" "len ?m = length (t @ member_text a)"
    using Cons.prems by (simp_all add: appendStringInfo_def)
  from Cons.IH [OF this] show ?case by (simp add: append_members_def)
qed

lemma takeWhile_to_NUL:
  "NUL \<notin> set xs \<Longrightarrow> takeWhile (\<lambda>c. c \<noteq> NUL) (xs @ NUL # ys) = xs"
  by (induction xs) auto

lemma cstring_at_members:
  assumes "ms \<noteq> []"
  shows "cstring_at (concat (map member_text ms) @ [NUL]) 2 = Some (pairs_text ms)"
proof -
  from assms obtain a as where ms: "ms = a # as" by (cases ms) auto
  have "takeWhile (\<lambda>c. c \<noteq> NUL) (pairs_text ms @ [NUL]) = pairs_text ms"
    using NUL_notin_pairs_text [of ms] by (rule takeWhile_to_NUL)
  then show ?thesis
    unfolding ms concat_member_text by (simp add: cstring_at_def)
qed

section \<open>The state through the calls\<close>

lemma emit_simps [simp]:
  "trace (emit e s) = trace s @ [e]"
  "interval (emit e s) = interval s"
  "in_recovery (emit e s) = in_recovery s"
  "members (emit e s) = members s"
  "MyNodeID (emit e s) = MyNodeID s"
  "MyProcPid (emit e s) = MyProcPid s"
  "cpg_fd (emit e s) = cpg_fd s"
  by (simp_all add: emit_def)

lemma elog_simps [simp]:
  "trace (elog l m s) = trace s @ [Elog l m]"
  "interval (elog l m s) = interval s"
  "in_recovery (elog l m s) = in_recovery s"
  "members (elog l m s) = members s"
  "MyNodeID (elog l m s) = MyNodeID s"
  "MyProcPid (elog l m s) = MyProcPid s"
  "cpg_fd (elog l m s) = cpg_fd s"
  by (simp_all add: elog_def)

lemma update_ps_display_eq:
  "update_ps_display s = emit (Set_ps_display (status_text (members s) (in_recovery s))) s"
proof -
  have "length (show_nat (unat (members s))) \<le> 10" by (rule show_u32_length)
  then show ?thesis
    by (simp add: update_ps_display_def snprintf_def status_text_def)
qed

lemma update_ps_display_simps [simp]:
  "trace (update_ps_display s) = trace s @ [Set_ps_display (status_text (members s) (in_recovery s))]"
  "interval (update_ps_display s) = interval s"
  "in_recovery (update_ps_display s) = in_recovery s"
  "members (update_ps_display s) = members s"
  "MyNodeID (update_ps_display s) = MyNodeID s"
  "MyProcPid (update_ps_display s) = MyProcPid s"
  "cpg_fd (update_ps_display s) = cpg_fd s"
  by (simp_all add: update_ps_display_eq)

lemma sum_up_members_init:
  assumes "length ms < 2 ^ 32"
  shows "\<exists>msg. sum_up_members ms 0 initStringInfo = Some msg
           \<and> data msg = concat (map member_text ms) @ [NUL]
           \<and> len msg = length (concat (map member_text ms))"
proof -
  have "sum_up_members ms 0 initStringInfo = Some (append_members initStringInfo ms)"
    using sum_up_members_total [OF assms, of 0 initStringInfo] by simp
  moreover have "data initStringInfo = [] @ [NUL]" "len initStringInfo = length ([] :: string)"
    by (simp_all add: initStringInfo_def)
  from append_members_data [OF this, of ms]
  have "data (append_members initStringInfo ms) = concat (map member_text ms) @ [NUL]"
       "len (append_members initStringInfo ms) = length (concat (map member_text ms))"
    by simp_all
  ultimately show ?thesis by simp
qed

lemma cs_config_cb_total:
  assumes "length (member_list cb) < 2 ^ 32"
  shows "cs_config_cb cb s =
     Some (if i_left cb (logged cb s)
           then elog_fatal ''[cpg] I left the closed process group!'' (logged cb s)
           else Return (logged cb s))"
proof -
  from sum_up_members_init [OF assms] obtain msg where
    msg: "sum_up_members (member_list cb) 0 initStringInfo = Some msg"
    and d: "data msg = concat (map member_text (member_list cb)) @ [NUL]"
    by blast
  have "cstring_at (data msg) 2 =
          (if member_list cb = [] then None else Some (pairs_text (member_list cb)))"
  proof (cases "member_list cb = []")
    case True
    with d show ?thesis by (simp add: cstring_at_def)
  next
    case False
    with d cstring_at_members [OF False] show ?thesis by simp
  qed
  with msg show ?thesis
    by (simp add: cs_config_cb_def logged_def Let_def)
qed

lemma cs_config_cb_Some:
  "cs_config_cb cb s = Some r \<Longrightarrow> length (member_list cb) < 2 ^ 32"
  by (auto simp: cs_config_cb_def Let_def split: option.splits dest: sum_up_members_ends)

lemma i_left_own:
  "i_left cb s = (left_list cb \<noteq> [] \<and> own_address s (hd (left_list cb)))"
  by (cases "left_list cb") (auto simp: i_left_def own_address_def intro: signed_word_eqI)

lemma logged_simps [simp]:
  "interval (logged cb s) = interval s"
  "in_recovery (logged cb s) = in_recovery s"
  "MyNodeID (logged cb s) = MyNodeID s"
  "MyProcPid (logged cb s) = MyProcPid s"
  "cpg_fd (logged cb s) = cpg_fd s"
  by (simp_all add: logged_def Let_def)

lemma i_left_logged [simp]: "i_left cb (logged cb s) = i_left cb s"
  by (cases "left_list cb") (simp_all add: i_left_def)

lemma logged_members [simp]: "members (logged cb s) = of_nat (length (member_list cb))"
  by (simp add: logged_def Let_def)

lemma logged_trace:
  "trace (logged cb s) = trace s @
     [Set_ps_display (status_text (of_nat (length (member_list cb))) (in_recovery s)),
      if member_list cb = []
      then Elog_unwritten LOG (confchg_head cb)
      else Elog LOG (confchg_head cb @ pairs_text (member_list cb))]"
  by (simp add: logged_def Let_def)

lemma new_effects_append [simp]: "trace s' = trace s @ es \<Longrightarrow> new_effects s s' = es"
  by (simp add: new_effects_def)

lemma cs_config_cb_end:
  "length (member_list cb) < 2 ^ 32 \<Longrightarrow> cs_config_cb cb s = Some (callback_end cb s)"
  by (simp add: cs_config_cb_total callback_end_def)

lemma callback_end_effects:
  "new_effects s (final (callback_end cb s)) =
     [Set_ps_display (status_text (of_nat (length (member_list cb))) (in_recovery s)),
      if member_list cb = []
      then Elog_unwritten LOG (confchg_head cb)
      else Elog LOG (confchg_head cb @ pairs_text (member_list cb))] @
     (if i_left cb s then [Elog FATAL ''[cpg] I left the closed process group!''] else [])"
  by (simp add: callback_end_def final_def elog_fatal_def logged_trace)

section \<open>The event loop\<close>

lemma then_do_simps [simp]:
  "then_do (Return s) f = f s"
  "then_do (Halt h s) f = Halt h s"
  by (simp_all add: then_do_def)

lemma final_simps [simp]:
  "final (Return s) = s"
  "final (Halt h s) = s"
  by (simp_all add: final_def)

lemma ending_simps [simp]:
  "ending (Return s) = None"
  "ending (Halt h s) = Some h"
  by (simp_all add: ending_def)

lemma i_left_cong:
  "MyNodeID s' = MyNodeID s \<Longrightarrow> MyProcPid s' = MyProcPid s \<Longrightarrow> i_left cb s' = i_left cb s"
  by (cases "left_list cb") (simp_all add: i_left_def)

lemma logged_no_fatal: "Elog FATAL m \<notin> set (new_effects s (logged cb s))"
  by (simp add: logged_trace)

lemma check_role_simps [simp]:
  "interval (check_role it s) = interval s"
  "members (check_role it s) = members s"
  "MyNodeID (check_role it s) = MyNodeID s"
  "MyProcPid (check_role it s) = MyProcPid s"
  "cpg_fd (check_role it s) = cpg_fd s"
  by (simp_all add: check_role_def)

lemma handle_interrupts_simps [simp]:
  "in_recovery (handle_interrupts it s) = in_recovery s"
  "members (handle_interrupts it s) = members s"
  "MyNodeID (handle_interrupts it s) = MyNodeID s"
  "MyProcPid (handle_interrupts it s) = MyProcPid s"
  "cpg_fd (handle_interrupts it s) = cpg_fd s"
  by (simp_all add: handle_interrupts_def Let_def split: option.splits)

lemma wait_latch_Return:
  "wait_latch it s = Return s' \<Longrightarrow>
     s' = emit ResetLatch (emit (WaitLatchOrSocket (cpg_fd s) (sint (interval s * 1000))) s)"
  by (auto simp: wait_latch_def Let_def cpg_sigterm_def split: wait_end.splits)

lemma dispatch_one_classify:
  "dispatch_one it s =
     (case delivered it of
        None \<Rightarrow> Some (classify it (emit (Cpg_dispatch CS_DISPATCH_ONE_NONBLOCKING) s))
      | Some cb \<Rightarrow>
          (case cs_config_cb cb (emit (Cpg_dispatch CS_DISPATCH_ONE_NONBLOCKING) s) of
             None \<Rightarrow> None
           | Some r \<Rightarrow> Some (then_do r (classify it))))"
  by (simp add: dispatch_one_def Let_def)

lemma dispatch_one_returns:
  "dispatch_returns it s s2 \<Longrightarrow> dispatch_one it s = Some (classify it s2)"
  by (auto simp: dispatch_one_classify dispatch_returns_def split: option.splits)

lemma classify_members:
  "classify it s2 = Return s3 \<Longrightarrow> members s3 = members s2"
  by (auto simp: classify_def elog_fatal_def split: if_splits)

lemma cs_config_cb_members:
  assumes "cs_config_cb cb s = Some r"
  shows "members (final r) = of_nat (length (member_list cb))"
    and "length (member_list cb) < 2 ^ 32"
proof -
  show l: "length (member_list cb) < 2 ^ 32" using assms by (rule cs_config_cb_Some)
  from assms cs_config_cb_end [OF l, of s] have "r = callback_end cb s" by simp
  then show "members (final r) = of_nat (length (member_list cb))"
    by (simp add: callback_end_def elog_fatal_def)
qed

lemma loop_body_members:
  assumes "loop_body it s = Some (Return s')"
  shows "members s' =
           (case delivered it of None \<Rightarrow> members s
            | Some cb \<Rightarrow> of_nat (length (member_list cb)))"
    and "\<And>cb. delivered it = Some cb \<Longrightarrow> length (member_list cb) < 2 ^ 32"
proof -
  let ?s0 = "emit CHECK_FOR_INTERRUPTS s"
  from assms obtain r where r: "dispatch_one it ?s0 = Some r"
    and w: "then_do r (\<lambda>s1. wait_latch it (handle_interrupts it (check_role it s1))) = Return s'"
    by (auto simp: loop_body_def split: option.splits)
  from w obtain s3 where r3: "r = Return s3"
    and w3: "wait_latch it (handle_interrupts it (check_role it s3)) = Return s'"
    by (cases r) auto
  from wait_latch_Return [OF w3] have m: "members s' = members s3" by simp
  show "members s' =
           (case delivered it of None \<Rightarrow> members s
            | Some cb \<Rightarrow> of_nat (length (member_list cb)))"
  proof (cases "delivered it")
    case None
    with r r3 have "classify it (emit (Cpg_dispatch CS_DISPATCH_ONE_NONBLOCKING) ?s0) = Return s3"
      by (simp add: dispatch_one_classify)
    from classify_members [OF this] m None show ?thesis by simp
  next
    case (Some cb)
    with r r3 obtain q where q: "cs_config_cb cb (emit (Cpg_dispatch CS_DISPATCH_ONE_NONBLOCKING) ?s0) = Some q"
      and c: "then_do q (classify it) = Return s3"
      by (auto simp: dispatch_one_classify split: option.splits)
    from c obtain s2 where q2: "q = Return s2" and c2: "classify it s2 = Return s3"
      by (cases q) auto
    from cs_config_cb_members(1) [OF q] q2
    have "members s2 = of_nat (length (member_list cb))" by simp
    with classify_members [OF c2] m Some show ?thesis by simp
  qed
  show "\<And>cb. delivered it = Some cb \<Longrightarrow> length (member_list cb) < 2 ^ 32"
  proof -
    fix cb assume "delivered it = Some cb"
    with r obtain q where "cs_config_cb cb (emit (Cpg_dispatch CS_DISPATCH_ONE_NONBLOCKING) ?s0) = Some q"
      by (auto simp: dispatch_one_classify split: option.splits)
    then show "length (member_list cb) < 2 ^ 32" by (rule cs_config_cb_Some)
  qed
qed

lemma views_Cons:
  "views (it # its) = (case delivered it of None \<Rightarrow> views its | Some cb \<Rightarrow> cb # views its)"
  by (simp add: views_def map_filter_simps split: option.splits)

lemma event_loop_members:
  "event_loop its s = Some (Loop_waiting s') \<Longrightarrow>
     members s' = (if views its = [] then members s
                   else of_nat (length (member_list (last (views its)))))
     \<and> (\<forall>cb \<in> set (views its). length (member_list cb) < 2 ^ 32)"
proof (induction its arbitrary: s)
  case Nil
  then show ?case by (simp add: views_def map_filter_simps)
next
  case (Cons it its)
  from Cons.prems obtain s1 where b: "loop_body it s = Some (Return s1)"
    and e: "event_loop its s1 = Some (Loop_waiting s')"
    by (auto split: option.splits flow.splits)
  note ih = Cons.IH [OF e]
  note lb = loop_body_members [OF b]
  show ?case
  proof (cases "delivered it")
    case None
    with ih lb(1) show ?thesis by (simp add: views_Cons)
  next
    case (Some cb)
    with ih lb(1) lb(2) [OF Some] show ?thesis by (simp add: views_Cons)
  qed
qed

lemma loop_body_evicted:
  assumes "length (member_list cb) < 2 ^ 32" and "delivered it = Some cb" and "i_left cb s"
  shows "loop_body it s =
     Some (Halt Fatal_error
        (elog FATAL ''[cpg] I left the closed process group!''
           (logged cb (emit (Cpg_dispatch CS_DISPATCH_ONE_NONBLOCKING) (emit CHECK_FOR_INTERRUPTS s)))))"
proof -
  let ?s1 = "emit (Cpg_dispatch CS_DISPATCH_ONE_NONBLOCKING) (emit CHECK_FOR_INTERRUPTS s)"
  have "i_left cb ?s1" using assms(3) i_left_cong [of ?s1 s cb] by simp
  then have "cs_config_cb cb ?s1 =
     Some (Halt Fatal_error (elog FATAL ''[cpg] I left the closed process group!'' (logged cb ?s1)))"
    by (simp add: cs_config_cb_end [OF assms(1)] callback_end_def elog_fatal_def)
  then show ?thesis
    using assms(2) by (simp add: loop_body_def dispatch_one_classify)
qed

lemma loop_body_idle:
  "delivered it = None \<Longrightarrow> dispatch_rc it = CS_ERR_TRY_AGAIN \<Longrightarrow>
   loop_body it s =
     Some (wait_latch it (handle_interrupts it (check_role it
             (emit (Cpg_dispatch CS_DISPATCH_ONE_NONBLOCKING) (emit CHECK_FOR_INTERRUPTS s)))))"
  by (simp add: loop_body_def dispatch_one_classify classify_def CS_OK_def CS_ERR_TRY_AGAIN_def)

lemma loop_body_delivered:
  "delivered it = Some cb \<Longrightarrow> length (member_list cb) < 2 ^ 32 \<Longrightarrow>
   loop_body it s =
     Some (then_do (then_do (callback_end cb (emit (Cpg_dispatch CS_DISPATCH_ONE_NONBLOCKING) (emit CHECK_FOR_INTERRUPTS s)))
                      (classify it))
             (\<lambda>s1. wait_latch it (handle_interrupts it (check_role it s1))))"
  by (simp add: loop_body_def dispatch_one_classify cs_config_cb_end)

section \<open>The group name and the ends of a run\<close>

lemma strlen_name: "strlen CPG_GROUP_NAME = 11"
  by (simp add: strlen_def CPG_GROUP_NAME_def NUL_def)

lemma cpg_group_value:
  "cpg_group = \<lparr>length_field = 11, value_field = ''pgsql_group'' @ replicate 117 NUL\<rparr>"
  by (simp add: cpg_group_def strncpy_def strlen_def CPG_GROUP_NAME_def NUL_def
      CPG_MAX_NAME_LENGTH_def)

lemma event_loop_never_breaks: "event_loop its s \<noteq> Some (Loop_broke s')"
  by (induction its arbitrary: s) (auto split: option.splits flow.splits)

lemma startup_ending:
  "startup env s = Halt h s1 \<Longrightarrow> h = Fatal_error"
  by (auto simp: startup_def Let_def then_do_def cpg_initialize_def join_group_def local_get_def
      fd_get_def elog_fatal_def split: flow.splits if_splits)

lemma wait_latch_ending: "wait_latch it s = Halt h s1 \<Longrightarrow> h \<noteq> Exit_status 1"
  by (auto simp: wait_latch_def Let_def cpg_sigterm_def split: wait_end.splits)

lemma classify_ending: "classify it s = Halt h s1 \<Longrightarrow> h = Fatal_error"
  by (auto simp: classify_def elog_fatal_def split: if_splits)

lemma cs_config_cb_ending: "cs_config_cb cb s = Some (Halt h s1) \<Longrightarrow> h = Fatal_error"
  using cs_config_cb_end [OF cs_config_cb_Some, of cb s "Halt h s1" s]
  by (auto simp: callback_end_def elog_fatal_def split: if_splits)

lemma dispatch_one_ending: "dispatch_one it s = Some (Halt h s1) \<Longrightarrow> h = Fatal_error"
proof (cases "delivered it")
  case None
  assume "dispatch_one it s = Some (Halt h s1)"
  with None show ?thesis by (auto simp: dispatch_one_classify dest: classify_ending)
next
  case (Some cb)
  assume "dispatch_one it s = Some (Halt h s1)"
  with Some obtain q where q: "cs_config_cb cb (emit (Cpg_dispatch CS_DISPATCH_ONE_NONBLOCKING) s) = Some q"
    and c: "then_do q (classify it) = Halt h s1"
    by (auto simp: dispatch_one_classify split: option.splits)
  show ?thesis
  proof (cases q)
    case (Return s2)
    with c show ?thesis by (auto dest: classify_ending)
  next
    case (Halt h' s2)
    with c q show ?thesis by (auto dest: cs_config_cb_ending)
  qed
qed

lemma loop_body_ending: "loop_body it s = Some (Halt h s1) \<Longrightarrow> h \<noteq> Exit_status 1"
proof -
  assume a: "loop_body it s = Some (Halt h s1)"
  then obtain r where r: "dispatch_one it (emit CHECK_FOR_INTERRUPTS s) = Some r"
    and w: "then_do r (\<lambda>s1. wait_latch it (handle_interrupts it (check_role it s1))) = Halt h s1"
    by (auto simp: loop_body_def split: option.splits)
  show ?thesis
  proof (cases r)
    case (Return s2)
    with w show ?thesis by (auto dest: wait_latch_ending)
  next
    case (Halt h' s2)
    with w r show ?thesis by (auto dest: dispatch_one_ending)
  qed
qed

lemma event_loop_ending: "event_loop its s = Some (Loop_halted h s1) \<Longrightarrow> h \<noteq> Exit_status 1"
proof (induction its arbitrary: s)
  case Nil
  then show ?case by simp
next
  case (Cons it its)
  then show ?case
    by (auto split: option.splits flow.splits dest: loop_body_ending)
qed

section \<open>The startup sequence, the option and the dispatch\<close>

lemma codes_distinct [simp]:
  "CS_OK \<noteq> CS_ERR_TRY_AGAIN" "CS_OK \<noteq> CS_ERR_INVALID_PARAM"
  "CS_ERR_TRY_AGAIN \<noteq> CS_OK" "CS_ERR_INVALID_PARAM \<noteq> CS_OK"
  "CS_ERR_TRY_AGAIN \<noteq> CS_ERR_INVALID_PARAM" "CS_ERR_INVALID_PARAM \<noteq> CS_ERR_TRY_AGAIN"
  by (simp_all add: CS_OK_def CS_ERR_TRY_AGAIN_def CS_ERR_INVALID_PARAM_def)

lemma elog_fatal_simps [simp]:
  "final (elog_fatal m s) = elog FATAL m s"
  "ending (elog_fatal m s) = Some Fatal_error"
  "then_do (elog_fatal m s) f = elog_fatal m s"
  by (simp_all add: elog_fatal_def)

lemma startup_prepared:
  "startup env s =
     then_do (then_do (then_do (cpg_initialize env (prepared env s)) (join_group env))
        (local_get env)) (fd_get env)"
  by (simp add: startup_def prepared_def Let_def)

lemma startup_gucs: "defined_gucs (new_effects s (final (startup env s))) = [interval_guc]"
  by (simp add: startup_prepared cpg_initialize_def join_group_def local_get_def fd_get_def
      Let_def prepared_def define_gucs_def new_effects_def)

lemma interval_guc_value:
  "interval_guc =
     \<lparr>name = ''cpg.interval'',
      short_desc = ''Defines the maximal interval in seconds between wakeups'',
      boot_value = 10, min_value = 1, max_value = 2147483,
      gcontext = PGC_SIGHUP, flags = GUC_UNIT_S\<rparr>"
  by (simp add: interval_guc_def INT_MAX_def)

lemma interval_times_1000:
  fixes v :: "32 word"
  assumes "1 \<le> sint v" and "sint v \<le> INT_MAX div 1000"
  shows "sint (v * 1000) = sint v * 1000"
    and "sint v * 1000 \<le> INT_MAX"
    and "- INT_MAX - 1 \<le> sint v * 1000"
proof -
  from assms have b: "1 \<le> sint v" "sint v \<le> 2147483" by (simp_all add: INT_MAX_def)
  then show "sint v * 1000 \<le> INT_MAX" "- INT_MAX - 1 \<le> sint v * 1000"
    by (simp_all add: INT_MAX_def)
  have "sint (v * 1000) = signed_take_bit 31 (sint v * 1000)"
    by (simp add: sint_word_mult)
  also have "\<dots> = sint v * 1000"
    using b by (intro signed_take_bit_int_eq_self) simp_all
  finally show "sint (v * 1000) = sint v * 1000" .
qed

lemma silent_refl: "trace s' = trace s \<Longrightarrow> silent s s'"
  by (simp add: silent_def)

lemma silent_trans: "silent s s1 \<Longrightarrow> silent s1 s2 \<Longrightarrow> silent s s2"
  by (auto simp: silent_def)

lemma silent_step:
  "trace s' = trace s @ es \<Longrightarrow> \<forall>f. Cpg_dispatch f \<notin> set es \<Longrightarrow> silent s s'"
  by (auto simp: silent_def)

lemma silent_callback_end: "silent s (final (callback_end cb s))"
  by (rule silent_step [where es = "new_effects s (final (callback_end cb s))"])
     (simp_all add: callback_end_effects, simp add: callback_end_def logged_trace new_effects_def)

lemma silent_classify: "silent s (final (classify it s))"
  by (rule silent_step [where es = "new_effects s (final (classify it s))"])
     (simp_all add: classify_def new_effects_def)

lemma silent_check_role: "silent s (check_role it s)"
  by (rule silent_step [where es = "new_effects s (check_role it s)"])
     (simp_all add: check_role_def new_effects_def)

lemma silent_handle_interrupts: "silent s (handle_interrupts it s)"
  by (rule silent_step [where es = "[HandleMainLoopInterrupts]"])
     (simp_all add: handle_interrupts_def Let_def split: option.splits)

lemma silent_wait_latch: "silent s (final (wait_latch it s))"
  by (rule silent_step [where es = "new_effects s (final (wait_latch it s))"])
     (cases "wake it"; simp add: wait_latch_def cpg_sigterm_def new_effects_def)+

lemma silent_then_do:
  "silent s (final r) \<Longrightarrow> (\<And>s1. silent s1 (final (f s1))) \<Longrightarrow> silent s (final (then_do r f))"
  by (cases r) (auto intro: silent_trans)

lemma silent_rest: "silent s (final (wait_latch it (handle_interrupts it (check_role it s))))"
  by (blast intro: silent_trans silent_check_role silent_handle_interrupts silent_wait_latch)

lemma silent_dispatch_one:
  assumes "dispatch_one it s = Some r"
  shows "silent (emit (Cpg_dispatch CS_DISPATCH_ONE_NONBLOCKING) s) (final r)"
proof (cases "delivered it")
  case None
  with assms show ?thesis by (auto simp: dispatch_one_classify silent_classify)
next
  case (Some cb)
  with assms obtain q where q: "cs_config_cb cb (emit (Cpg_dispatch CS_DISPATCH_ONE_NONBLOCKING) s) = Some q"
    and r: "r = then_do q (classify it)"
    by (auto simp: dispatch_one_classify split: option.splits)
  from q have "q = callback_end cb (emit (Cpg_dispatch CS_DISPATCH_ONE_NONBLOCKING) s)"
    using cs_config_cb_end [OF cs_config_cb_Some [OF q], of "emit (Cpg_dispatch CS_DISPATCH_ONE_NONBLOCKING) s"] by simp
  then have "silent (emit (Cpg_dispatch CS_DISPATCH_ONE_NONBLOCKING) s) (final q)" by (simp add: silent_callback_end)
  then show ?thesis unfolding r by (rule silent_then_do) (rule silent_classify)
qed

lemma no_dispatch_filter: "\<forall>f. Cpg_dispatch f \<notin> set es \<Longrightarrow> filter is_dispatch es = []"
proof (induction es)
  case Nil
  then show ?case by simp
next
  case (Cons e es)
  then show ?case by (cases e) auto
qed

lemma loop_body_dispatches_once:
  assumes "loop_body it s = Some r"
  shows "filter is_dispatch (new_effects s (final r)) = [Cpg_dispatch CS_DISPATCH_ONE_NONBLOCKING]"
proof -
  let ?s0 = "emit CHECK_FOR_INTERRUPTS s"
  from assms obtain q where q: "dispatch_one it ?s0 = Some q"
    and r: "r = then_do q (\<lambda>s1. wait_latch it (handle_interrupts it (check_role it s1)))"
    by (auto simp: loop_body_def split: option.splits)
  have "silent (emit (Cpg_dispatch CS_DISPATCH_ONE_NONBLOCKING) ?s0) (final r)"
    unfolding r using silent_dispatch_one [OF q] by (rule silent_then_do) (rule silent_rest)
  then obtain es where
    "trace (final r) =
       trace s @ [CHECK_FOR_INTERRUPTS, Cpg_dispatch CS_DISPATCH_ONE_NONBLOCKING] @ es"
    and "\<forall>f. Cpg_dispatch f \<notin> set es"
    by (auto simp: silent_def)
  then show ?thesis by (simp add: new_effects_def no_dispatch_filter)
qed

section \<open>Claims\<close>

text \<open>
  C2.  The status string is a function of (members, in_recovery) alone: what
  \<open>update_ps_display\<close> passes to \<open>set_ps_display\<close> is \<open>[<members>] Hello!\<close> in recovery
  and \<open>[<members>] I'm the primary!\<close> otherwise, with the counter in decimal and nothing
  cut off by the 128-byte buffer; with its terminating NUL the string is at most 128
  bytes long.  The call changes nothing else.
\<close>

theorem update_ps_display_status:
  "\<exists>t. update_ps_display s = emit (Set_ps_display t) s
     \<and> t = (if in_recovery s
            then ''['' @ show_nat (unat (members s)) @ ''] Hello!''
            else ''['' @ show_nat (unat (members s)) @ ''] I'm the primary!'')
     \<and> length t + 1 \<le> 128"
proof -
  have "length (show_nat (unat (members s))) \<le> 10" by (rule show_u32_length)
  then show ?thesis
    by (simp add: update_ps_display_def snprintf_def)
qed

theorem update_ps_display_status_witness:
  "(\<exists>t. update_ps_display primary7 = emit (Set_ps_display t) primary7
        \<and> t = ''[2] I'm the primary!'' \<and> length t + 1 \<le> 128)
   \<and> (\<exists>t. update_ps_display worker7 = emit (Set_ps_display t) worker7
        \<and> t = ''[0] Hello!'' \<and> length t + 1 \<le> 128)"
  using update_ps_display_status [of primary7] update_ps_display_status [of worker7]
  by (simp add: primary7_def worker7_def show_eval)

text \<open>
  C10.  The log line of the callback reads the buffer from its third byte on.  For a view
  that is not empty (and that the unsigned int index can run through, that is, of fewer
  than \<open>2 ^ 32\<close> entries) the buffer holds a comma and a space, then the list of the
  pairs and the terminating NUL: the third byte is inside the bytes written, the string
  read there is the list of the view's \<open>nodeid/pid\<close> pairs, each printed with \<open>%d\<close> and
  separated by a comma and a space, and that list is what the log line ends with.  For an
  empty view only the terminating NUL was written: the third byte is past the written
  bytes, and the log line's argument is not defined by the program.
\<close>

theorem members_log_line:
  assumes "length (member_list cb) < 2 ^ 32"
  shows "\<exists>msg r. sum_up_members (member_list cb) 0 initStringInfo = Some msg
           \<and> cs_config_cb cb s = Some r
           \<and> (member_list cb \<noteq> [] \<longrightarrow>
                data msg = '', '' @ pairs_text (member_list cb) @ [NUL]
                \<and> 2 < length (data msg)
                \<and> cstring_at (data msg) 2 = Some (pairs_text (member_list cb))
                \<and> Elog LOG (confchg_head cb @ pairs_text (member_list cb))
                      \<in> set (new_effects s (final r)))
           \<and> (member_list cb = [] \<longrightarrow>
                data msg = [NUL]
                \<and> length (data msg) \<le> 2
                \<and> cstring_at (data msg) 2 = None
                \<and> Elog_unwritten LOG (confchg_head cb) \<in> set (new_effects s (final r)))"
proof -
  let ?ms = "member_list cb"
  from sum_up_members_init [OF assms] obtain msg where
    msg: "sum_up_members ?ms 0 initStringInfo = Some msg"
    and d: "data msg = concat (map member_text ?ms) @ [NUL]"
    by blast
  have r: "cs_config_cb cb s = Some (callback_end cb s)" by (rule cs_config_cb_end [OF assms])
  have full: "?ms \<noteq> [] \<Longrightarrow>
      data msg = '', '' @ pairs_text ?ms @ [NUL] \<and> 2 < length (data msg)"
  proof -
    assume "?ms \<noteq> []"
    then obtain a as where "?ms = a # as" by (cases ?ms) auto
    with d have "data msg = '', '' @ pairs_text ?ms @ [NUL]"
      by (simp only: concat_member_text append_assoc)
    then show ?thesis by simp
  qed
  have c1: "?ms \<noteq> [] \<Longrightarrow> cstring_at (data msg) 2 = Some (pairs_text ?ms)"
    using d cstring_at_members by simp
  have c2: "?ms = [] \<Longrightarrow>
      data msg = [NUL] \<and> length (data msg) \<le> 2 \<and> cstring_at (data msg) 2 = None"
    using d by (simp add: cstring_at_def)
  have e1: "?ms \<noteq> [] \<Longrightarrow>
      Elog LOG (confchg_head cb @ pairs_text ?ms) \<in> set (new_effects s (final (callback_end cb s)))"
    by (simp add: callback_end_effects)
  have e2: "?ms = [] \<Longrightarrow>
      Elog_unwritten LOG (confchg_head cb) \<in> set (new_effects s (final (callback_end cb s)))"
    by (simp add: callback_end_effects)
  show ?thesis
    using msg r full c1 c2 e1 e2 by blast
qed

theorem members_log_line_witness:
  "(\<exists>msg r. sum_up_members (member_list solo_join) 0 initStringInfo = Some msg
      \<and> cs_config_cb solo_join worker7 = Some r
      \<and> data msg = '', 7/123'' @ [NUL]
      \<and> 2 < length (data msg)
      \<and> cstring_at (data msg) 2 = Some ''7/123''
      \<and> Elog LOG ''[cpg] 1 join, 0 left, procs in group now: 7/123''
            \<in> set (new_effects worker7 (final r)))
   \<and> (\<exists>msg r. sum_up_members (member_list empty_view) 0 initStringInfo = Some msg
      \<and> cs_config_cb empty_view worker7 = Some r
      \<and> data msg = [NUL]
      \<and> length (data msg) \<le> 2
      \<and> cstring_at (data msg) 2 = None
      \<and> Elog_unwritten LOG ''[cpg] 0 join, 0 left, procs in group now: ''
            \<in> set (new_effects worker7 (final r)))"
proof
  from members_log_line [of solo_join worker7]
  show "\<exists>msg r. sum_up_members (member_list solo_join) 0 initStringInfo = Some msg
      \<and> cs_config_cb solo_join worker7 = Some r
      \<and> data msg = '', 7/123'' @ [NUL]
      \<and> 2 < length (data msg)
      \<and> cstring_at (data msg) 2 = Some ''7/123''
      \<and> Elog LOG ''[cpg] 1 join, 0 left, procs in group now: 7/123''
            \<in> set (new_effects worker7 (final r))"
    by (simp add: solo_join_def node7_def confchg_head_def pair_text_def show_eval)
  from members_log_line [of empty_view worker7]
  show "\<exists>msg r. sum_up_members (member_list empty_view) 0 initStringInfo = Some msg
      \<and> cs_config_cb empty_view worker7 = Some r
      \<and> data msg = [NUL]
      \<and> length (data msg) \<le> 2
      \<and> cstring_at (data msg) 2 = None
      \<and> Elog_unwritten LOG ''[cpg] 0 join, 0 left, procs in group now: ''
            \<in> set (new_effects worker7 (final r))"
    by (simp add: empty_view_def confchg_head_def show_eval)
qed

text \<open>
  C1.  A membership callback whose left list is not empty and starts with the worker's
  own address (its node id and its pid) ends the process inside the callback, with the
  FATAL message \<open>[cpg] I left the closed process group!\<close> as its last effect; so the
  loop iteration that delivers it ends the event loop there.  A callback whose left list
  is empty or starts with another address returns and logs no FATAL line: in particular
  when the worker's own address stands in the left list at a later position only.  The
  view is one the unsigned int index of the member loop can run through (fewer than
  \<open>2 ^ 32\<close> entries).
\<close>

theorem self_eviction:
  assumes "length (member_list cb) < 2 ^ 32"
  shows "(left_list cb \<noteq> [] \<and> own_address s (hd (left_list cb)) \<longrightarrow>
            (\<exists>s'. cs_config_cb cb s = Some (Halt Fatal_error s')
               \<and> last (trace s') = Elog FATAL ''[cpg] I left the closed process group!'')
            \<and> (delivered it = Some cb \<longrightarrow>
                 (\<exists>s'. event_loop (it # its) s = Some (Loop_halted Fatal_error s')
                    \<and> last (trace s') = Elog FATAL ''[cpg] I left the closed process group!'')))
       \<and> (left_list cb = [] \<or> \<not> own_address s (hd (left_list cb)) \<longrightarrow>
            (\<exists>s'. cs_config_cb cb s = Some (Return s')
               \<and> (\<forall>m. Elog FATAL m \<notin> set (new_effects s s'))))"
proof (intro conjI impI)
  assume "left_list cb \<noteq> [] \<and> own_address s (hd (left_list cb))"
  then have l: "i_left cb s" by (simp add: i_left_own)
  then show "\<exists>s'. cs_config_cb cb s = Some (Halt Fatal_error s')
               \<and> last (trace s') = Elog FATAL ''[cpg] I left the closed process group!''"
    by (simp add: cs_config_cb_end [OF assms] callback_end_def elog_fatal_def)
  assume "delivered it = Some cb"
  from loop_body_evicted [OF assms this l]
  show "\<exists>s'. event_loop (it # its) s = Some (Loop_halted Fatal_error s')
                    \<and> last (trace s') = Elog FATAL ''[cpg] I left the closed process group!''"
    by simp
next
  assume "left_list cb = [] \<or> \<not> own_address s (hd (left_list cb))"
  then have "\<not> i_left cb s" by (auto simp: i_left_own)
  then show "\<exists>s'. cs_config_cb cb s = Some (Return s')
               \<and> (\<forall>m. Elog FATAL m \<notin> set (new_effects s s'))"
    by (simp add: cs_config_cb_end [OF assms] callback_end_def logged_no_fatal)
qed

theorem self_eviction_witness:
  "((\<exists>s'. cs_config_cb evicted worker7 = Some (Halt Fatal_error s')
        \<and> last (trace s') = Elog FATAL ''[cpg] I left the closed process group!'')
     \<and> (\<exists>s'. event_loop [idle_iteration\<lparr>delivered := Some evicted\<rparr>] worker7
                = Some (Loop_halted Fatal_error s')
        \<and> last (trace s') = Elog FATAL ''[cpg] I left the closed process group!''))
   \<and> own_address worker7 (left_list two_left ! 1)
   \<and> (\<exists>s'. cs_config_cb two_left worker7 = Some (Return s')
        \<and> (\<forall>m. Elog FATAL m \<notin> set (new_effects worker7 s')))"
  using self_eviction [of evicted worker7 "idle_iteration\<lparr>delivered := Some evicted\<rparr>" "[]"]
    self_eviction [of two_left worker7]
  by (simp add: evicted_def two_left_def own_address_def worker7_def node7_def node8_def)

text \<open>
  C5.  When a membership callback has run for a view, the \<open>members\<close> counter is the
  number of entries of that view, whether the callback returned or ended the process; the
  callback does run to its end for every view of fewer than \<open>2 ^ 32\<close> entries.  The
  counter keeps that value until the next delivery: after any number of iterations with
  the worker still in the loop, it is the number of entries of the last view delivered.
\<close>

theorem view_cardinality:
  "(cs_config_cb cb s = Some r \<longrightarrow> unat (members (final r)) = length (member_list cb))
   \<and> (length (member_list cb) < 2 ^ 32 \<longrightarrow> (\<exists>r. cs_config_cb cb s = Some r))
   \<and> (event_loop its s = Some (Loop_waiting s') \<and> views its \<noteq> [] \<longrightarrow>
        unat (members s') = length (member_list (last (views its))))"
proof (intro conjI impI)
  assume a: "cs_config_cb cb s = Some r"
  from cs_config_cb_members [OF a]
  show "unat (members (final r)) = length (member_list cb)"
    by (simp add: unat_of_nat)
next
  assume "length (member_list cb) < 2 ^ 32"
  then show "\<exists>r. cs_config_cb cb s = Some r" by (simp add: cs_config_cb_end)
next
  assume a: "event_loop its s = Some (Loop_waiting s') \<and> views its \<noteq> []"
  then have "last (views its) \<in> set (views its)" by simp
  with event_loop_members [of its s s'] a
  show "unat (members s') = length (member_list (last (views its)))"
    by (simp add: unat_of_nat)
qed

theorem view_cardinality_witness:
  "(\<exists>r. cs_config_cb solo_join worker7 = Some r \<and> unat (members (final r)) = 1)
   \<and> (\<exists>s'. event_loop [idle_iteration\<lparr>delivered := Some solo_join\<rparr>, idle_iteration] worker7
               = Some (Loop_waiting s')
          \<and> unat (members s') = 1)"
proof
  have "\<exists>r. cs_config_cb solo_join worker7 = Some r"
    using view_cardinality [of solo_join worker7] by (simp add: solo_join_def)
  then obtain r where r: "cs_config_cb solo_join worker7 = Some r" ..
  with view_cardinality [of solo_join worker7 r]
  show "\<exists>r. cs_config_cb solo_join worker7 = Some r \<and> unat (members (final r)) = 1"
    by (simp add: solo_join_def)
next
  let ?its = "[idle_iteration\<lparr>delivered := Some solo_join\<rparr>, idle_iteration]"
  have v: "views ?its = [solo_join]"
    by (simp add: views_Cons idle_iteration_def views_def map_filter_simps)
  have "\<exists>s'. event_loop ?its worker7 = Some (Loop_waiting s')"
    by (simp add: loop_body_delivered [of _ solo_join] loop_body_idle idle_iteration_def
        solo_join_def callback_end_def i_left_def classify_def wait_latch_def
        CS_OK_def CS_ERR_TRY_AGAIN_def)
  then obtain s' where s: "event_loop ?its worker7 = Some (Loop_waiting s')" ..
  with view_cardinality [where its = ?its and s = worker7 and s' = s'] v
  show "\<exists>s'. event_loop ?its worker7 = Some (Loop_waiting s') \<and> unat (members s') = 1"
    by (simp add: solo_join_def)
qed

text \<open>
  C7, as the code has it.  The group name joined at startup is the literal \<open>pgsql_group\<close>,
  copied into the 128-byte array and padded with NULs, and its stored length is what
  \<open>strlen\<close> gives for the literal: 11, the number of its bytes.  This \<open>cpg_name\<close> is the
  argument of the join, the first effect of the join step.
\<close>

theorem group_name_joined:
  "CPG_GROUP_NAME = ''pgsql_group''
   \<and> cpg_group = \<lparr>length_field = 11, value_field = ''pgsql_group'' @ replicate 117 NUL\<rparr>
   \<and> take (unat (length_field cpg_group)) (value_field cpg_group) = ''pgsql_group''
   \<and> (\<exists>rest. new_effects s (final (join_group env s)) = Cpg_join cpg_group # rest)"
  by (simp add: cpg_group_value CPG_GROUP_NAME_def join_group_def elog_fatal_def Let_def
      new_effects_def)

text \<open>C7 as stated fails: the stored length is not 10.\<close>

theorem group_name_length_counterexample:
  "length_field cpg_group \<noteq> 10 \<and> strlen CPG_GROUP_NAME \<noteq> 10"
  by (simp add: cpg_group_value strlen_name)

text \<open>
  C3, as the code has it.  In each iteration the role is sampled and compared with the
  stored one.  When they differ, in either direction, the worker logs
  \<open>[cpg] I've been promoted!\<close> (the code has no other message for a role change), stores
  the result of a second sample, and refreshes the status from it; when they are equal it
  logs \<open>[cpg] Hi!\<close> and keeps the stored role.  So the promotion line is logged iff the
  sampled role differs from the stored one.
\<close>

theorem role_transition:
  "(recovery_first it \<noteq> in_recovery s \<longrightarrow>
      new_effects s (check_role it s) =
        [Elog LOG ''[cpg] I've been promoted!'',
         Set_ps_display (status_text (members s) (recovery_second it))]
      \<and> in_recovery (check_role it s) = recovery_second it)
   \<and> (recovery_first it = in_recovery s \<longrightarrow>
      new_effects s (check_role it s) = [Elog LOG ''[cpg] Hi!'']
      \<and> in_recovery (check_role it s) = in_recovery s)
   \<and> (Elog LOG ''[cpg] I've been promoted!'' \<in> set (new_effects s (check_role it s))
        \<longleftrightarrow> recovery_first it \<noteq> in_recovery s)"
  by (simp add: check_role_def)

theorem role_transition_witness:
  "new_effects worker7 (check_role (idle_iteration\<lparr>recovery_first := False, recovery_second := False\<rparr>) worker7)
      = [Elog LOG ''[cpg] I've been promoted!'', Set_ps_display ''[0] I'm the primary!'']
   \<and> \<not> in_recovery (check_role (idle_iteration\<lparr>recovery_first := False, recovery_second := False\<rparr>) worker7)
   \<and> new_effects worker7 (check_role idle_iteration worker7) = [Elog LOG ''[cpg] Hi!'']"
  using role_transition [of "idle_iteration\<lparr>recovery_first := False, recovery_second := False\<rparr>" worker7]
    role_transition [of idle_iteration worker7]
  by (simp add: idle_iteration_def worker7_def status_text_def show_eval)

text \<open>
  C3 as stated fails: a worker that is primary and samples "in recovery" logs the
  promotion line, not a demotion message.
\<close>

theorem demotion_counterexample:
  "\<not> in_recovery primary7 \<and> recovery_first demotion
   \<and> new_effects primary7 (check_role demotion primary7) =
       [Elog LOG ''[cpg] I've been promoted!'', Set_ps_display ''[2] Hello!'']"
  by (simp add: demotion_def primary7_def worker7_def idle_iteration_def check_role_def
      status_text_def show_eval)

text \<open>
  C9.  The SIGTERM handler logs \<open>[cpg] ...and leaving\<close> (with the UTF-8 ellipsis) and exits
  with status 0, so a SIGTERM arriving during the wait ends the process so.  The
  statements after the event loop log a line and exit with status 1, and they are never
  reached: the loop never hands control on, and no run of \<open>cpg_main\<close> ends with exit
  status 1.
\<close>

theorem sigterm_and_fall_through:
  "cpg_sigterm s = Halt (Exit_status 0) (elog LOG (''[cpg] '' @ ellipsis @ ''and leaving'') s)
   \<and> (wake it = Sigterm_arrives \<longrightarrow>
        ending (wait_latch it s) = Some (Exit_status 0)
        \<and> last (trace (final (wait_latch it s))) = Elog LOG (''[cpg] '' @ ellipsis @ ''and leaving''))
   \<and> after_loop s = Halt (Exit_status 1) (elog LOG ''[cpg] oops, the event loop broke'' s)
   \<and> event_loop its s \<noteq> Some (Loop_broke s')
   \<and> cpg_main env its s \<noteq> Some (Ended (Exit_status 1) s')"
proof -
  have "cpg_main env its s \<noteq> Some (Ended (Exit_status 1) s')"
    using event_loop_never_breaks
    by (auto simp: cpg_main_def split: flow.splits option.splits loop_end.splits
        dest: startup_ending event_loop_ending)
  then show ?thesis
    by (simp add: cpg_sigterm_def after_loop_def wait_latch_def event_loop_never_breaks)
qed

theorem sigterm_and_fall_through_witness:
  "ending (wait_latch (idle_iteration\<lparr>wake := Sigterm_arrives\<rparr>) worker7) = Some (Exit_status 0)
   \<and> last (trace (final (wait_latch (idle_iteration\<lparr>wake := Sigterm_arrives\<rparr>) worker7)))
       = Elog LOG [CHR ''['', CHR ''c'', CHR ''p'', CHR ''g'', CHR '']'', CHR '' '',
                   CHR 0xE2, CHR 0x80, CHR 0xA6,
                   CHR ''a'', CHR ''n'', CHR ''d'', CHR '' '',
                   CHR ''l'', CHR ''e'', CHR ''a'', CHR ''v'', CHR ''i'', CHR ''n'', CHR ''g'']"
  using sigterm_and_fall_through [of worker7 "idle_iteration\<lparr>wake := Sigterm_arrives\<rparr>"]
  by (simp add: idle_iteration_def ellipsis_def)

text \<open>
  C6, as the code has it.  Every failure of the session-open sequence ends the process
  with a FATAL log as its last effect.  When the initialization returns a code other than
  OK, when the join returns a code other than OK and INVALID_PARAM, when the local node
  id or the file descriptor cannot be fetched, the message ends with the substrate's
  code in decimal.  When the join returns INVALID_PARAM the message is the fixed text
  \<open>[cpg] the handle is already joined to a group\<close>, with no code in it.  When the four
  calls return OK the sequence returns and logs no FATAL line.
\<close>

theorem startup_failures:
  "(init_rc env \<noteq> CS_OK \<longrightarrow>
      ending (startup env s) = Some Fatal_error
      \<and> last (trace (final (startup env s))) =
          Elog FATAL (''[cpg] could not init the cpg handle: '' @ show_int (init_rc env)))
   \<and> (init_rc env = CS_OK \<and> join_rc env = CS_ERR_INVALID_PARAM \<longrightarrow>
      ending (startup env s) = Some Fatal_error
      \<and> last (trace (final (startup env s))) =
          Elog FATAL ''[cpg] the handle is already joined to a group'')
   \<and> (init_rc env = CS_OK \<and> join_rc env \<noteq> CS_OK \<and> join_rc env \<noteq> CS_ERR_INVALID_PARAM \<longrightarrow>
      ending (startup env s) = Some Fatal_error
      \<and> last (trace (final (startup env s))) =
          Elog FATAL (''[cpg] could not join the close process group: '' @ show_int (join_rc env)))
   \<and> (init_rc env = CS_OK \<and> join_rc env = CS_OK \<and> local_get_rc env \<noteq> CS_OK \<longrightarrow>
      ending (startup env s) = Some Fatal_error
      \<and> last (trace (final (startup env s))) =
          Elog FATAL (''[cpg] failed to get local nodeid: '' @ show_int (local_get_rc env)))
   \<and> (init_rc env = CS_OK \<and> join_rc env = CS_OK \<and> local_get_rc env = CS_OK
        \<and> fd_get_rc env \<noteq> CS_OK \<longrightarrow>
      ending (startup env s) = Some Fatal_error
      \<and> last (trace (final (startup env s))) =
          Elog FATAL (''[cpg] failed to get the CPG file descriptor: '' @ show_int (fd_get_rc env)))
   \<and> (init_rc env = CS_OK \<and> join_rc env = CS_OK \<and> local_get_rc env = CS_OK
        \<and> fd_get_rc env = CS_OK \<longrightarrow>
      ending (startup env s) = None
      \<and> (\<forall>m. Elog FATAL m \<notin> set (new_effects s (final (startup env s)))))"
  by (simp add: startup_prepared cpg_initialize_def join_group_def local_get_def fd_get_def
      Let_def prepared_def define_gucs_def new_effects_def)

theorem startup_failures_witness:
  "ending (startup (all_ok\<lparr>init_rc := 2\<rparr>) boot7) = Some Fatal_error
   \<and> last (trace (final (startup (all_ok\<lparr>init_rc := 2\<rparr>) boot7))) =
        Elog FATAL ''[cpg] could not init the cpg handle: 2''
   \<and> last (trace (final (startup (all_ok\<lparr>join_rc := 9\<rparr>) boot7))) =
        Elog FATAL ''[cpg] could not join the close process group: 9''
   \<and> last (trace (final (startup (all_ok\<lparr>local_get_rc := 2\<rparr>) boot7))) =
        Elog FATAL ''[cpg] failed to get local nodeid: 2''
   \<and> last (trace (final (startup (all_ok\<lparr>fd_get_rc := 12\<rparr>) boot7))) =
        Elog FATAL ''[cpg] failed to get the CPG file descriptor: 12''
   \<and> last (trace (final (startup already_joined boot7))) =
        Elog FATAL ''[cpg] the handle is already joined to a group''
   \<and> ending (startup all_ok boot7) = None"
  using startup_failures [of "all_ok\<lparr>init_rc := 2\<rparr>" boot7]
    startup_failures [of "all_ok\<lparr>join_rc := 9\<rparr>" boot7]
    startup_failures [of "all_ok\<lparr>local_get_rc := 2\<rparr>" boot7]
    startup_failures [of "all_ok\<lparr>fd_get_rc := 12\<rparr>" boot7]
    startup_failures [of already_joined boot7]
    startup_failures [of all_ok boot7]
  by (simp add: all_ok_def already_joined_def show_eval CS_OK_def CS_ERR_INVALID_PARAM_def)

text \<open>
  C6 as stated fails: the FATAL line of a join refused with INVALID_PARAM has no digit in
  it, so it does not include the numeric cause.
\<close>

theorem already_joined_counterexample:
  "join_rc already_joined = CS_ERR_INVALID_PARAM
   \<and> ending (startup already_joined boot7) = Some Fatal_error
   \<and> last (trace (final (startup already_joined boot7))) =
        Elog FATAL ''[cpg] the handle is already joined to a group''
   \<and> \<not> has_digit ''[cpg] the handle is already joined to a group''"
  by (simp add: startup_prepared cpg_initialize_def join_group_def already_joined_def all_ok_def
      Let_def has_digit_def)

text \<open>
  C8.  The startup sequence defines exactly one option: \<open>cpg.interval\<close>, an integer in
  seconds with default 10, minimum 1 and maximum \<open>INT_MAX / 1000\<close> (2147483), set at
  SIGHUP.  For every value of \<open>interval\<close> within those bounds, the timeout the wait is
  called with is \<open>interval * 1000\<close>, and that product lies within the range of an int:
  the multiplication does not overflow.
\<close>

theorem interval_option:
  "defined_gucs (new_effects s (final (startup env s))) = [interval_guc]
   \<and> interval_guc =
       \<lparr>name = ''cpg.interval'',
        short_desc = ''Defines the maximal interval in seconds between wakeups'',
        boot_value = 10, min_value = 1, max_value = 2147483,
        gcontext = PGC_SIGHUP, flags = GUC_UNIT_S\<rparr>
   \<and> max_value interval_guc = INT_MAX div 1000
   \<and> (min_value interval_guc \<le> sint (interval s) \<and> sint (interval s) \<le> max_value interval_guc
        \<longrightarrow>
        hd (new_effects s (final (wait_latch it s))) =
          WaitLatchOrSocket (cpg_fd s) (sint (interval s) * 1000)
        \<and> - INT_MAX - 1 \<le> sint (interval s) * 1000
        \<and> sint (interval s) * 1000 \<le> INT_MAX)"
proof -
  have w: "hd (new_effects s (final (wait_latch it s))) =
          WaitLatchOrSocket (cpg_fd s) (sint (interval s * 1000))"
    by (cases "wake it") (simp_all add: wait_latch_def cpg_sigterm_def new_effects_def)
  have m: "max_value interval_guc = INT_MAX div 1000" "min_value interval_guc = 1"
    by (simp_all add: interval_guc_def)
  have "min_value interval_guc \<le> sint (interval s) \<and> sint (interval s) \<le> max_value interval_guc
        \<longrightarrow>
        hd (new_effects s (final (wait_latch it s))) =
          WaitLatchOrSocket (cpg_fd s) (sint (interval s) * 1000)
        \<and> - INT_MAX - 1 \<le> sint (interval s) * 1000
        \<and> sint (interval s) * 1000 \<le> INT_MAX"
    using interval_times_1000 [of "interval s"] w unfolding m by simp
  with startup_gucs [of s env] interval_guc_value m(1) show ?thesis by blast
qed

theorem interval_option_witness:
  "defined_gucs (new_effects boot7 (final (startup all_ok boot7))) = [interval_guc]
   \<and> hd (new_effects worker7 (final (wait_latch idle_iteration worker7)))
       = WaitLatchOrSocket 5 10000
   \<and> hd (new_effects slowest (final (wait_latch idle_iteration slowest)))
       = WaitLatchOrSocket 5 2147483000"
proof (intro conjI)
  show "defined_gucs (new_effects boot7 (final (startup all_ok boot7))) = [interval_guc]"
    using interval_option [of boot7 all_ok] by (rule conjunct1)
  have b: "min_value interval_guc \<le> sint (interval worker7)
           \<and> sint (interval worker7) \<le> max_value interval_guc"
    by (simp add: interval_guc_def INT_MAX_def worker7_def)
  have "hd (new_effects worker7 (final (wait_latch idle_iteration worker7)))
          = WaitLatchOrSocket (cpg_fd worker7) (sint (interval worker7) * 1000)"
    using interval_option [of worker7 all_ok idle_iteration] b by blast
  moreover have "cpg_fd worker7 = 5" "sint (interval worker7) = 10"
    by (simp_all add: worker7_def)
  ultimately show "hd (new_effects worker7 (final (wait_latch idle_iteration worker7)))
       = WaitLatchOrSocket 5 10000"
    by simp
  have c: "min_value interval_guc \<le> sint (interval slowest)
           \<and> sint (interval slowest) \<le> max_value interval_guc"
    by (simp add: interval_guc_def INT_MAX_def slowest_def)
  have "hd (new_effects slowest (final (wait_latch idle_iteration slowest)))
          = WaitLatchOrSocket (cpg_fd slowest) (sint (interval slowest) * 1000)"
    using interval_option [of slowest all_ok idle_iteration] c by blast
  moreover have "cpg_fd slowest = 5" "sint (interval slowest) = 2147483"
    by (simp_all add: slowest_def worker7_def)
  ultimately show "hd (new_effects slowest (final (wait_latch idle_iteration slowest)))
       = WaitLatchOrSocket 5 2147483000"
    by simp
qed

text \<open>
  C4.  An iteration of the event loop calls \<open>cpg_dispatch\<close> exactly once, asking for one
  event without blocking.  When the call
  comes back (the callback, if a config change was delivered, has returned), its code
  decides: on OK the loop logs \<open>[cpg] dispatched one event\<close> at DEBUG1 and goes on with the
  rest of the iteration; on TRY_AGAIN it goes on with the rest of the iteration and logs
  nothing for the dispatch; on any other code the process ends with the FATAL line
  \<open>[cpg] dispatching callback failed:\<close> and the code, and the event loop ends there.
\<close>

theorem dispatch_classified:
  "(loop_body it s = Some r \<longrightarrow>
      filter is_dispatch (new_effects s (final r)) = [Cpg_dispatch CS_DISPATCH_ONE_NONBLOCKING])
   \<and> (dispatch_returns it (emit CHECK_FOR_INTERRUPTS s) s2 \<longrightarrow>
        (dispatch_rc it = CS_OK \<longrightarrow>
           loop_body it s =
             Some (wait_latch it (handle_interrupts it (check_role it
                     (elog DEBUG1 ''[cpg] dispatched one event'' s2)))))
        \<and> (dispatch_rc it = CS_ERR_TRY_AGAIN \<longrightarrow>
           loop_body it s = Some (wait_latch it (handle_interrupts it (check_role it s2))))
        \<and> (dispatch_rc it \<noteq> CS_OK \<and> dispatch_rc it \<noteq> CS_ERR_TRY_AGAIN \<longrightarrow>
           event_loop (it # its) s =
             Some (Loop_halted Fatal_error
                     (elog FATAL (''[cpg] dispatching callback failed: '' @
                                  show_int (dispatch_rc it)) s2))))"
proof (intro conjI impI)
  assume "loop_body it s = Some r"
  then show "filter is_dispatch (new_effects s (final r)) =
      [Cpg_dispatch CS_DISPATCH_ONE_NONBLOCKING]"
    by (rule loop_body_dispatches_once)
next
  assume d: "dispatch_returns it (emit CHECK_FOR_INTERRUPTS s) s2"
  note b = dispatch_one_returns [OF d]
  { assume "dispatch_rc it = CS_OK"
    with b show "loop_body it s =
             Some (wait_latch it (handle_interrupts it (check_role it
                     (elog DEBUG1 ''[cpg] dispatched one event'' s2))))"
      by (simp add: loop_body_def classify_def) }
  { assume "dispatch_rc it = CS_ERR_TRY_AGAIN"
    with b show "loop_body it s = Some (wait_latch it (handle_interrupts it (check_role it s2)))"
      by (simp add: loop_body_def classify_def) }
  { assume "dispatch_rc it \<noteq> CS_OK \<and> dispatch_rc it \<noteq> CS_ERR_TRY_AGAIN"
    with b show "event_loop (it # its) s =
             Some (Loop_halted Fatal_error
                     (elog FATAL (''[cpg] dispatching callback failed: '' @
                                  show_int (dispatch_rc it)) s2))"
      by (simp add: loop_body_def classify_def elog_fatal_def) }
qed

theorem dispatch_classified_witness:
  "loop_body idle_iteration worker7 =
     Some (wait_latch idle_iteration (handle_interrupts idle_iteration
             (check_role idle_iteration dispatching)))
   \<and> filter is_dispatch (new_effects worker7 (final (wait_latch idle_iteration
         (handle_interrupts idle_iteration (check_role idle_iteration dispatching)))))
       = [Cpg_dispatch CS_DISPATCH_ONE_NONBLOCKING]
   \<and> loop_body join_delivered worker7 =
       Some (wait_latch join_delivered (handle_interrupts join_delivered
               (check_role join_delivered
                  (elog DEBUG1 ''[cpg] dispatched one event'' (logged solo_join dispatching)))))
   \<and> event_loop [failed_dispatch] worker7 =
       Some (Loop_halted Fatal_error
               (elog FATAL ''[cpg] dispatching callback failed: 2'' dispatching))"
proof (intro conjI)
  have r1: "dispatch_returns idle_iteration (emit CHECK_FOR_INTERRUPTS worker7) dispatching"
    by (simp add: dispatch_returns_def idle_iteration_def dispatching_def)
  have c1: "dispatch_rc idle_iteration = CS_ERR_TRY_AGAIN" by (simp add: idle_iteration_def)
  from dispatch_classified [of idle_iteration worker7 _ dispatching] r1 c1
  show b1: "loop_body idle_iteration worker7 =
     Some (wait_latch idle_iteration (handle_interrupts idle_iteration
             (check_role idle_iteration dispatching)))"
    by blast
  from dispatch_classified [of idle_iteration worker7
      "wait_latch idle_iteration (handle_interrupts idle_iteration
             (check_role idle_iteration dispatching))"] b1
  show "filter is_dispatch (new_effects worker7 (final (wait_latch idle_iteration
         (handle_interrupts idle_iteration (check_role idle_iteration dispatching)))))
       = [Cpg_dispatch CS_DISPATCH_ONE_NONBLOCKING]"
    by blast
  have r2: "dispatch_returns join_delivered (emit CHECK_FOR_INTERRUPTS worker7)
              (logged solo_join dispatching)"
    by (simp add: dispatch_returns_def join_delivered_def idle_iteration_def dispatching_def
        cs_config_cb_end callback_end_def i_left_def solo_join_def)
  have c2: "dispatch_rc join_delivered = CS_OK"
    by (simp add: join_delivered_def idle_iteration_def)
  from dispatch_classified [of join_delivered worker7 _ "logged solo_join dispatching"] r2 c2
  show "loop_body join_delivered worker7 =
       Some (wait_latch join_delivered (handle_interrupts join_delivered
               (check_role join_delivered
                  (elog DEBUG1 ''[cpg] dispatched one event'' (logged solo_join dispatching)))))"
    by blast
  have r3: "dispatch_returns failed_dispatch (emit CHECK_FOR_INTERRUPTS worker7) dispatching"
    by (simp add: dispatch_returns_def failed_dispatch_def idle_iteration_def dispatching_def)
  have c3: "dispatch_rc failed_dispatch \<noteq> CS_OK \<and> dispatch_rc failed_dispatch \<noteq> CS_ERR_TRY_AGAIN"
    by (simp add: failed_dispatch_def idle_iteration_def CS_OK_def CS_ERR_TRY_AGAIN_def)
  have s3: "show_int (dispatch_rc failed_dispatch) = ''2''"
    by (simp add: failed_dispatch_def idle_iteration_def show_eval)
  from dispatch_classified [of failed_dispatch worker7 _ dispatching "[]"] r3 c3
  have "event_loop [failed_dispatch] worker7 =
       Some (Loop_halted Fatal_error
               (elog FATAL (''[cpg] dispatching callback failed: '' @
                            show_int (dispatch_rc failed_dispatch)) dispatching))"
    by blast
  then show "event_loop [failed_dispatch] worker7 =
       Some (Loop_halted Fatal_error
               (elog FATAL ''[cpg] dispatching callback failed: 2'' dispatching))"
    by (simp add: s3)
qed

end
